theory Spec2Isabelle
  imports Main "HOL-Library.Multiset"
begin

section \<open>The persisted schema\<close>

text \<open>
  The migration declares three enumerations and four tables. A UUID is only ever compared
  for equality, so it is a natural number here; a \<open>TIMESTAMPTZ\<close> is the number of
  milliseconds since the epoch (what \<open>new Date(s).getTime()\<close> reads from its text).
  A nullable column is an \<open>option\<close>. Column names that several tables share
  (\<open>id\<close>, \<open>user_id\<close>, \<open>created_at\<close>) carry the table's initial.
\<close>

type_synonym uuid = nat
type_synonym timestamptz = int

datatype app_role = student | staff | admin

datatype complaint_status = pending | in_progress | resolved

datatype complaint_category = academic | infrastructure | administrative | technical | other

record user_roles_row =
  r_id :: uuid
  user_id :: uuid
  role :: app_role
  r_created_at :: timestamptz

record complaint =
  c_id :: uuid
  student_id :: uuid
  title :: string
  description :: string
  category :: complaint_category
  status :: complaint_status
  assigned_to :: "uuid option"
  created_at :: timestamptz
  updated_at :: timestamptz

record comment =
  m_id :: uuid
  complaint_id :: uuid
  m_user_id :: uuid
  message :: string
  m_created_at :: timestamptz

text \<open>
  The stored data: the three tables the handlers touch, and the ids of the rows of
  \<open>auth.users\<close>, which the migration does not create and the foreign keys refer to.
\<close>

record database =
  auth_users :: "uuid list"
  user_roles :: "user_roles_row list"
  complaints :: "complaint list"
  comments :: "comment list"

datatype db_error = unique_violation | row_security_violation | foreign_key_violation

section \<open>Row-level security policies\<close>

text \<open>
  \<open>has_role\<close> is \<open>SECURITY DEFINER\<close>: it reads \<open>user_roles\<close> with its owner's rights, so
  it sees every row of the table whoever calls it. Its argument \<open>tbl\<close> is that table.
\<close>

definition has_role :: "user_roles_row list \<Rightarrow> uuid \<Rightarrow> app_role \<Rightarrow> bool" where
  "has_role tbl u r = (\<exists>row \<in> set tbl. user_id row = u \<and> role row = r)"

text \<open>
  Each policy is its \<open>USING\<close> expression, with \<open>auth.uid()\<close> the argument \<open>uid\<close>. Every
  policy is \<open>TO authenticated\<close>: a principal is a signed-in user, named by its id. A
  comparison with a \<open>NULL\<close> \<open>assigned_to\<close> is not true, as in SQL.
\<close>

definition users_can_view_own_role :: "uuid \<Rightarrow> user_roles_row \<Rightarrow> bool" where
  "users_can_view_own_role uid row = (uid = user_id row)"

definition admins_can_manage_all_roles :: "user_roles_row list \<Rightarrow> uuid \<Rightarrow> bool" where
  "admins_can_manage_all_roles roles uid = has_role roles uid admin"

definition students_can_view_own_complaints ::
  "user_roles_row list \<Rightarrow> uuid \<Rightarrow> 'a complaint_scheme \<Rightarrow> bool" where
  "students_can_view_own_complaints roles uid c =
     (uid = student_id c \<or> has_role roles uid staff \<or> has_role roles uid admin)"

definition students_can_create_complaints :: "uuid \<Rightarrow> 'a complaint_scheme \<Rightarrow> bool" where
  "students_can_create_complaints uid c = (uid = student_id c)"

definition staff_can_update_assigned_complaints ::
  "user_roles_row list \<Rightarrow> uuid \<Rightarrow> 'a complaint_scheme \<Rightarrow> bool" where
  "staff_can_update_assigned_complaints roles uid c =
     (has_role roles uid staff \<and> Some uid = assigned_to c \<or> has_role roles uid admin)"

definition admins_can_manage_all_complaints :: "user_roles_row list \<Rightarrow> uuid \<Rightarrow> bool" where
  "admins_can_manage_all_complaints roles uid = has_role roles uid admin"

text \<open>
  All policies are permissive, so the policies of one command are joined by \<open>OR\<close>; a
  \<open>FOR ALL\<close> policy belongs to every command. A row can be selected when a \<open>SELECT\<close> or
  \<open>ALL\<close> policy holds of it.
\<close>

definition can_select_complaint ::
  "user_roles_row list \<Rightarrow> uuid \<Rightarrow> 'a complaint_scheme \<Rightarrow> bool" where
  "can_select_complaint roles uid c =
     (students_can_view_own_complaints roles uid c \<or> admins_can_manage_all_complaints roles uid)"

definition can_insert_complaint ::
  "user_roles_row list \<Rightarrow> uuid \<Rightarrow> 'a complaint_scheme \<Rightarrow> bool" where
  "can_insert_complaint roles uid c =
     (students_can_create_complaints uid c \<or> admins_can_manage_all_complaints roles uid)"

text \<open>
  The \<open>UPDATE\<close> and \<open>ALL\<close> policies, joined. The policies give no \<open>WITH CHECK\<close>, so the
  same expression is also checked of the row as updated.
\<close>

definition update_policies ::
  "user_roles_row list \<Rightarrow> uuid \<Rightarrow> 'a complaint_scheme \<Rightarrow> bool" where
  "update_policies roles uid c =
     (staff_can_update_assigned_complaints roles uid c \<or> admins_can_manage_all_complaints roles uid)"

text \<open>
  The client's updates name their row in a \<open>WHERE\<close> clause (\<open>.eq("id", ...)\<close>), so the
  statement also reads the row: an existing row is updated when the \<open>SELECT\<close> policies
  and the \<open>UPDATE\<close> policies both hold of it.
\<close>

definition can_update_complaint ::
  "user_roles_row list \<Rightarrow> uuid \<Rightarrow> 'a complaint_scheme \<Rightarrow> bool" where
  "can_update_complaint roles uid c =
     (can_select_complaint roles uid c \<and> update_policies roles uid c)"

text \<open>
  The \<open>USING\<close> expression of the policy on reading comments, over the rows \<open>tbl\<close> that
  its sub-select on \<open>public.complaints\<close> ranges over.
\<close>

definition users_can_view_comments_on_accessible_complaints ::
  "user_roles_row list \<Rightarrow> uuid \<Rightarrow> 'a complaint_scheme list \<Rightarrow> 'b comment_scheme \<Rightarrow> bool" where
  "users_can_view_comments_on_accessible_complaints roles uid tbl m =
     (\<exists>c \<in> set tbl. c_id c = complaint_id m \<and>
        (student_id c = uid \<or> assigned_to c = Some uid \<or> has_role roles uid admin))"

text \<open>
  A policy expression is evaluated as part of the caller's query. Its sub-select is not
  wrapped in a \<open>SECURITY DEFINER\<close> function, as the role lookup of \<open>has_role\<close> is, and
  \<open>public.complaints\<close> has row-level security enabled: the sub-select ranges over the
  complaints that the calling principal can select.
\<close>

definition can_select_comment ::
  "user_roles_row list \<Rightarrow> uuid \<Rightarrow> 'a complaint_scheme list \<Rightarrow> 'b comment_scheme \<Rightarrow> bool" where
  "can_select_comment roles uid tbl m =
     users_can_view_comments_on_accessible_complaints roles uid
       (filter (can_select_complaint roles uid) tbl) m"

definition can_update_role :: "user_roles_row list \<Rightarrow> uuid \<Rightarrow> user_roles_row \<Rightarrow> bool" where
  "can_update_role roles uid row =
     ((users_can_view_own_role uid row \<or> admins_can_manage_all_roles roles uid) \<and>
      admins_can_manage_all_roles roles uid)"

section \<open>Statements the client sends\<close>

text \<open>
  \<open>supabase.from("user_roles").update({ role }).eq("user_id", userId)\<close>: every row of the
  user that the caller may update takes the new role; rows the policies hide are passed
  over without an error. \<open>UNIQUE(user_id, role)\<close> is checked of the table as updated, and
  a violation aborts the whole statement. (\<open>has_role\<close> is \<open>STABLE\<close>: it reads the table
  as it was when the statement began.)
\<close>

definition update_user_roles ::
  "uuid \<Rightarrow> uuid \<Rightarrow> app_role \<Rightarrow> user_roles_row list \<Rightarrow> db_error + user_roles_row list" where
  "update_user_roles uid userId r tbl =
     (let tbl' = map (\<lambda>row. if user_id row = userId \<and> can_update_role tbl uid row
                              then row\<lparr>role := r\<rparr> else row) tbl
      in if distinct (map (\<lambda>row. (user_id row, role row)) tbl') then Inr tbl'
         else Inl unique_violation)"

text \<open>
  \<open>supabase.from("complaints").update(cols).eq("id", id)\<close>: \<open>set_cols\<close> writes the
  columns of \<open>cols\<close>, the trigger \<open>update_complaints_updated_at\<close> then stamps
  \<open>updated_at\<close>, and the row as updated must pass the update policies again, or the
  statement is aborted.
\<close>

definition update_complaints ::
  "user_roles_row list \<Rightarrow> uuid \<Rightarrow> timestamptz \<Rightarrow> uuid \<Rightarrow> (complaint \<Rightarrow> complaint) \<Rightarrow>
     complaint list \<Rightarrow> db_error + complaint list" where
  "update_complaints roles uid now target set_cols tbl =
     (let hit = (\<lambda>c. c_id c = target \<and> can_update_complaint roles uid c);
          new = (\<lambda>c. (set_cols c)\<lparr>updated_at := now\<rparr>)
      in if \<exists>c \<in> set tbl. hit c \<and> \<not> update_policies roles uid (new c)
         then Inl row_security_violation
         else Inr (map (\<lambda>c. if hit c then new c else c) tbl))"

text \<open>
  The handlers. Each sends one statement as the signed-in principal \<open>uid\<close> at time
  \<open>now\<close>; \<open>Inl\<close> is the error the handler shows in its toast, and the stored data is
  then what it was.
\<close>

text \<open>
  \<open>assigned_to\<close> is \<open>REFERENCES auth.users(id)\<close>: the row-security checks come first, as
  each row is written, and the foreign key is checked of the rows written when the
  statement ends. A statement that writes no row passes it.
\<close>

definition handleAssignStaff ::
  "uuid \<Rightarrow> timestamptz \<Rightarrow> uuid \<Rightarrow> uuid \<Rightarrow> database \<Rightarrow> db_error + database" where
  "handleAssignStaff uid now complaintId staffId db =
     (case update_complaints (user_roles db) uid now complaintId
             (\<lambda>c. c\<lparr>assigned_to := Some staffId, status := in_progress\<rparr>) (complaints db) of
        Inl e \<Rightarrow> Inl e
      | Inr tbl \<Rightarrow>
          if staffId \<notin> set (auth_users db) \<and>
             (\<exists>c \<in> set (complaints db).
                c_id c = complaintId \<and> can_update_complaint (user_roles db) uid c)
          then Inl foreign_key_violation
          else Inr (db\<lparr>complaints := tbl\<rparr>))"

definition handleStatusUpdate ::
  "uuid \<Rightarrow> timestamptz \<Rightarrow> uuid \<Rightarrow> complaint_status \<Rightarrow> database \<Rightarrow> db_error + database" where
  "handleStatusUpdate uid now complaintId newStatus db =
     (case update_complaints (user_roles db) uid now complaintId
             (\<lambda>c. c\<lparr>status := newStatus\<rparr>) (complaints db) of
        Inl e \<Rightarrow> Inl e
      | Inr tbl \<Rightarrow> Inr (db\<lparr>complaints := tbl\<rparr>))"

definition handlePromoteToStaff :: "uuid \<Rightarrow> uuid \<Rightarrow> database \<Rightarrow> db_error + database" where
  "handlePromoteToStaff uid userId db =
     (case update_user_roles uid userId staff (user_roles db) of
        Inl e \<Rightarrow> Inl e
      | Inr tbl \<Rightarrow> Inr (db\<lparr>user_roles := tbl\<rparr>))"

definition handleDemoteToStudent :: "uuid \<Rightarrow> uuid \<Rightarrow> database \<Rightarrow> db_error + database" where
  "handleDemoteToStudent uid userId db =
     (case update_user_roles uid userId student (user_roles db) of
        Inl e \<Rightarrow> Inl e
      | Inr tbl \<Rightarrow> Inr (db\<lparr>user_roles := tbl\<rparr>))"

text \<open>
  The insert names \<open>student_id\<close>, \<open>title\<close>, \<open>description\<close>, \<open>category\<close> and \<open>status\<close>;
  the column defaults fill the rest. \<open>newId\<close> is the value \<open>gen_random_uuid()\<close> draws
  for the primary key. \<open>student_id\<close> is \<open>user!.id\<close>, the id of the signed-in principal
  itself, which is a row of \<open>auth.users\<close> while it is signed in.
\<close>

definition handleSubmitComplaint ::
  "uuid \<Rightarrow> timestamptz \<Rightarrow> uuid \<Rightarrow> string \<Rightarrow> string \<Rightarrow> complaint_category \<Rightarrow> database \<Rightarrow>
     db_error + database" where
  "handleSubmitComplaint uid now newId ti de ca db =
     (let row = \<lparr>c_id = newId, student_id = uid, title = ti, description = de, category = ca,
                 status = pending, assigned_to = None, created_at = now, updated_at = now\<rparr>
      in if \<not> can_insert_complaint (user_roles db) uid row then Inl row_security_violation
         else if newId \<in> set (map c_id (complaints db)) then Inl unique_violation
         else Inr (db\<lparr>complaints := complaints db @ [row]\<rparr>))"

text \<open>A session: handler calls, each by some principal at some time, one after another.\<close>

datatype operation =
    SubmitComplaint uuid string string complaint_category
  | StatusUpdate uuid complaint_status
  | AssignStaff uuid uuid
  | PromoteToStaff uuid
  | DemoteToStudent uuid

fun perform :: "uuid \<Rightarrow> timestamptz \<Rightarrow> operation \<Rightarrow> database \<Rightarrow> db_error + database" where
  "perform uid now (SubmitComplaint newId ti de ca) db = handleSubmitComplaint uid now newId ti de ca db"
| "perform uid now (StatusUpdate complaintId newStatus) db = handleStatusUpdate uid now complaintId newStatus db"
| "perform uid now (AssignStaff complaintId staffId) db = handleAssignStaff uid now complaintId staffId db"
| "perform uid now (PromoteToStaff userId) db = handlePromoteToStaff uid userId db"
| "perform uid now (DemoteToStudent userId) db = handleDemoteToStudent uid userId db"

fun step :: "database \<Rightarrow> uuid \<times> timestamptz \<times> operation \<Rightarrow> database" where
  "step db (uid, now, operation) =
     (case perform uid now operation db of Inl e \<Rightarrow> db | Inr db' \<Rightarrow> db')"

definition run :: "(uuid \<times> timestamptz \<times> operation) list \<Rightarrow> database \<Rightarrow> database" where
  "run reqs db = foldl step db reqs"

section \<open>The admin dashboard's derived views\<close>

text \<open>
  The dashboard holds each complaint with the owner's profile joined in:
  \<open>student_profile\<close> is the profile's \<open>full_name\<close>, or \<open>None\<close> for \<open>null\<close>.
\<close>

record complaint_view = complaint +
  student_profile :: "string option"

subsection \<open>Sorting\<close>

text \<open>
  \<open>Array.prototype.sort\<close> with a comparator is stable; with a consistent comparator its
  result is the one a stable insertion sort gives. An element goes before the first
  element it does not compare greater than.
\<close>

fun insert_sorted :: "('a \<Rightarrow> 'a \<Rightarrow> int) \<Rightarrow> 'a \<Rightarrow> 'a list \<Rightarrow> 'a list" where
  "insert_sorted cmp x [] = [x]"
| "insert_sorted cmp x (y # ys) =
     (if cmp x y \<le> 0 then x # y # ys else y # insert_sorted cmp x ys)"

definition array_sort :: "('a \<Rightarrow> 'a \<Rightarrow> int) \<Rightarrow> 'a list \<Rightarrow> 'a list" where
  "array_sort cmp xs = foldr (insert_sorted cmp) xs []"

text \<open>
  The comparator of \<open>sortedComplaints\<close>. \<open>String.prototype.localeCompare\<close> is the host's
  collation, a parameter here.
\<close>

definition compareFn ::
  "(string \<Rightarrow> string \<Rightarrow> int) \<Rightarrow> string \<Rightarrow> complaint_view \<Rightarrow> complaint_view \<Rightarrow> int" where
  "compareFn localeCompare sortBy a b =
     (if sortBy = ''newest'' then created_at b - created_at a
      else if sortBy = ''oldest'' then created_at a - created_at b
      else if sortBy = ''student'' then
        (let nameA = (case student_profile a of None \<Rightarrow> [] | Some n \<Rightarrow> n);
             nameB = (case student_profile b of None \<Rightarrow> [] | Some n \<Rightarrow> n)
         in localeCompare nameA nameB)
      else if sortBy = ''title'' then localeCompare (title a) (title b)
      else 0)"

definition sortedComplaints ::
  "(string \<Rightarrow> string \<Rightarrow> int) \<Rightarrow> string \<Rightarrow> complaint_view list \<Rightarrow> complaint_view list" where
  "sortedComplaints localeCompare sortBy filteredComplaints =
     array_sort (compareFn localeCompare sortBy) filteredComplaints"

text \<open>Does \<open>x\<close> stand at some position before an occurrence of \<open>y\<close>?\<close>

fun occurs_before :: "'a \<Rightarrow> 'a \<Rightarrow> 'a list \<Rightarrow> bool" where
  "occurs_before x y [] = False"
| "occurs_before x y (z # zs) = (z = x \<and> y \<in> set zs \<or> occurs_before x y zs)"

subsection \<open>Aggregation\<close>

text \<open>
  The \<open>reduce\<close> of \<open>categoryData\<close>: \<open>find\<close> returns the first entry of that name and
  \<open>existing.value++\<close> changes it in place; a new name is pushed at the end.
\<close>

fun increment :: "'k \<Rightarrow> ('k \<times> nat) list \<Rightarrow> ('k \<times> nat) list" where
  "increment k [] = []"
| "increment k (item # rest) =
     (if fst item = k then (fst item, snd item + 1) # rest else item # increment k rest)"

definition categoryData :: "'a complaint_scheme list \<Rightarrow> (complaint_category \<times> nat) list" where
  "categoryData cs =
     foldl (\<lambda>acc complaint.
              let cat = category complaint
              in case find (\<lambda>item. fst item = cat) acc of
                   Some existing \<Rightarrow> increment cat acc
                 | None \<Rightarrow> acc @ [(cat, 1)])
           [] cs"

text \<open>
  Dates. A \<open>Date\<close> is an instant, in milliseconds since the epoch; its local fields are
  read in the host's time zone. The zone is the host's, not the repository's: it is a
  parameter, given as the tz database gives it, by the UTC offset (in milliseconds) in
  force at first and the later transitions, each the instant it happens and the offset
  from then on, in ascending order.
\<close>

record time_zone =
  initial_offset :: int
  transitions :: "(int \<times> int) list"

definition msPerDay :: int where
  "msPerDay = 86400000"

definition Day :: "int \<Rightarrow> int" where
  "Day t = t div msPerDay"

definition TimeWithinDay :: "int \<Rightarrow> int" where
  "TimeWithinDay t = t mod msPerDay"

definition MakeDate :: "int \<Rightarrow> int \<Rightarrow> int" where
  "MakeDate day time = day * msPerDay + time"

text \<open>The offset in force at the UTC instant \<open>t\<close>.\<close>

fun offset_at :: "int \<Rightarrow> (int \<times> int) list \<Rightarrow> int \<Rightarrow> int" where
  "offset_at off [] t = off"
| "offset_at off ((at, off') # rest) t = (if t < at then off else offset_at off' rest t)"

text \<open>
  The offset of the local time value \<open>t\<close>. A local time that a transition repeats or
  skips is read with the offset before the transition, as ECMAScript prescribes.
\<close>

fun local_offset_at :: "int \<Rightarrow> (int \<times> int) list \<Rightarrow> int \<Rightarrow> int" where
  "local_offset_at off [] t = off"
| "local_offset_at off ((at, off') # rest) t =
     (if t < at + max off off' then off else local_offset_at off' rest t)"

definition LocalTZA :: "time_zone \<Rightarrow> int \<Rightarrow> bool \<Rightarrow> int" where
  "LocalTZA tz t isUTC =
     (if isUTC then offset_at (initial_offset tz) (transitions tz) t
      else local_offset_at (initial_offset tz) (transitions tz) t)"

definition LocalTime :: "time_zone \<Rightarrow> int \<Rightarrow> int" where
  "LocalTime tz t = t + LocalTZA tz t True"

definition UTC :: "time_zone \<Rightarrow> int \<Rightarrow> int" where
  "UTC tz t = t - LocalTZA tz t False"

text \<open>
  \<open>date.setDate(date.getDate() - n)\<close>: the local date moves \<open>n\<close> days back on the
  calendar, the local time of day stays, and the result is read back as an instant.
  (\<open>MakeDay\<close> of the date's own year and month with the day of the month less \<open>n\<close> is
  the date's day number less \<open>n\<close>.)
\<close>

definition setDate_back :: "time_zone \<Rightarrow> timestamptz \<Rightarrow> int \<Rightarrow> timestamptz" where
  "setDate_back tz date n =
     (let t = LocalTime tz date;
          newDate = MakeDate (Day t - n) (TimeWithinDay t)
      in UTC tz newDate)"

text \<open>
  \<open>toISOString().split('T')[0]\<close> is the text of the date's day in UTC, and \<open>created_at\<close>
  arrives as text in UTC as well, so \<open>startsWith(dateString)\<close> compares two UTC days.
  \<open>toLocaleDateString\<close> is the text of the date's day in the host's zone. A day is named
  by its number since the epoch.
\<close>

definition toISODate :: "timestamptz \<Rightarrow> int" where
  "toISODate date = Day date"

definition toLocaleDate :: "time_zone \<Rightarrow> timestamptz \<Rightarrow> int" where
  "toLocaleDate tz date = Day (LocalTime tz date)"

text \<open>
  A bucket of the histogram is \<open>{ date, complaints }\<close>: the label, which names the local
  day of \<open>date\<close>, and the count, taken over the UTC day of the same \<open>date\<close>.
\<close>

definition last7DaysData ::
  "time_zone \<Rightarrow> timestamptz \<Rightarrow> 'a complaint_scheme list \<Rightarrow> (int \<times> nat) list" where
  "last7DaysData tz now cs =
     map (\<lambda>i. let date = setDate_back tz now (6 - int i);
                  dateString = toISODate date;
                  count = length (filter (\<lambda>c. toISODate (created_at c) = dateString) cs)
              in (toLocaleDate tz date, count))
         [0..<7]"

definition overdueComplaints ::
  "time_zone \<Rightarrow> timestamptz \<Rightarrow> 'a complaint_scheme list \<Rightarrow> 'a complaint_scheme list" where
  "overdueComplaints tz now cs =
     (let threeDaysAgo = setDate_back tz now 3
      in filter (\<lambda>c. status c = pending \<and> assigned_to c = None \<and> created_at c < threeDaysAgo) cs)"

section \<open>Facts about the policies\<close>

lemma primary_key_unique:
  "distinct (map c_id tbl) \<Longrightarrow> c \<in> set tbl \<Longrightarrow> c' \<in> set tbl \<Longrightarrow> c_id c' = c_id c \<Longrightarrow> c' = c"
  by (simp add: distinct_map inj_on_def)

text \<open>
  Were the sub-select to range over the whole table, the comment policy would ask for
  the owner, the assignee or an admin and nothing more.
\<close>

lemma comment_policy_over_table:
  assumes "c \<in> set tbl" and "c_id c = complaint_id m" and "distinct (map c_id tbl)"
  shows "users_can_view_comments_on_accessible_complaints roles uid tbl m \<longleftrightarrow>
     (student_id c = uid \<or> assigned_to c = Some uid \<or> has_role roles uid admin)"
proof
  assume "users_can_view_comments_on_accessible_complaints roles uid tbl m"
  then obtain c' where c': "c' \<in> set tbl" "c_id c' = complaint_id m"
    "student_id c' = uid \<or> assigned_to c' = Some uid \<or> has_role roles uid admin"
    unfolding users_can_view_comments_on_accessible_complaints_def by auto
  have "c' = c"
    using primary_key_unique [OF assms(3) assms(1) c'(1)] c'(2) assms(2) by simp
  with c'(3) show "student_id c = uid \<or> assigned_to c = Some uid \<or> has_role roles uid admin"
    by simp
next
  assume "student_id c = uid \<or> assigned_to c = Some uid \<or> has_role roles uid admin"
  with assms(1,2) show "users_can_view_comments_on_accessible_complaints roles uid tbl m"
    unfolding users_can_view_comments_on_accessible_complaints_def
    by (intro bexI [of _ c]) simp_all
qed

text \<open>As it is, the parent complaint must be one the principal can select.\<close>

lemma comment_read_parent:
  assumes "c \<in> set tbl" and "c_id c = complaint_id m" and "distinct (map c_id tbl)"
  shows "can_select_comment roles uid tbl m \<longleftrightarrow>
     (can_select_complaint roles uid c \<and>
      (student_id c = uid \<or> assigned_to c = Some uid \<or> has_role roles uid admin))"
proof
  assume "can_select_comment roles uid tbl m"
  then obtain c' where c': "c' \<in> set tbl" "can_select_complaint roles uid c'"
    "c_id c' = complaint_id m"
    "student_id c' = uid \<or> assigned_to c' = Some uid \<or> has_role roles uid admin"
    unfolding can_select_comment_def users_can_view_comments_on_accessible_complaints_def
    by auto
  have "c' = c"
    using primary_key_unique [OF assms(3) assms(1) c'(1)] c'(3) assms(2) by simp
  with c' show "can_select_complaint roles uid c \<and>
      (student_id c = uid \<or> assigned_to c = Some uid \<or> has_role roles uid admin)"
    by simp
next
  assume "can_select_complaint roles uid c \<and>
      (student_id c = uid \<or> assigned_to c = Some uid \<or> has_role roles uid admin)"
  with assms(1,2) show "can_select_comment roles uid tbl m"
    unfolding can_select_comment_def users_can_view_comments_on_accessible_complaints_def
    by (intro bexI [of _ c]) simp_all
qed

lemma admin_update_policies: "has_role roles uid admin \<Longrightarrow> update_policies roles uid c"
  by (simp add: update_policies_def admins_can_manage_all_complaints_def)

lemma admin_can_update: "has_role roles uid admin \<Longrightarrow> can_update_complaint roles uid c"
  by (simp add: can_update_complaint_def can_select_complaint_def update_policies_def
        admins_can_manage_all_complaints_def)

section \<open>Facts about the statements\<close>

lemma map_user_id_update:
  "map user_id (map (\<lambda>row. if P row then row\<lparr>role := r\<rparr> else row) tbl) = map user_id tbl"
  by (induction tbl) auto

lemma update_user_roles_user_ids:
  "update_user_roles uid userId r tbl = Inr tbl' \<Longrightarrow> map user_id tbl' = map user_id tbl"
  unfolding update_user_roles_def Let_def
  by (auto split: if_splits simp: map_user_id_update)

lemma update_complaints_cases:
  "update_complaints roles uid now target set_cols tbl = Inr tbl' \<Longrightarrow>
     tbl' = map (\<lambda>c. if c_id c = target \<and> can_update_complaint roles uid c
                      then (set_cols c)\<lparr>updated_at := now\<rparr> else c) tbl"
  unfolding update_complaints_def Let_def
  by (simp split: if_splits)

lemma update_complaints_none:
  assumes "\<forall>c \<in> set tbl. c_id c = target \<longrightarrow> \<not> can_update_complaint roles uid c"
  shows "update_complaints roles uid now target set_cols tbl = Inr tbl"
proof -
  have "map (\<lambda>c. if c_id c = target \<and> can_update_complaint roles uid c
                  then (set_cols c)\<lparr>updated_at := now\<rparr> else c) tbl = tbl"
    using assms by (intro map_idI) auto
  then show ?thesis
    using assms unfolding update_complaints_def Let_def by auto
qed

lemma admin_update_complaints:
  assumes "has_role roles uid admin"
  shows "update_complaints roles uid now target set_cols tbl =
           Inr (map (\<lambda>c. if c_id c = target then (set_cols c)\<lparr>updated_at := now\<rparr> else c) tbl)"
  unfolding update_complaints_def Let_def
  by (simp add: admin_update_policies [OF assms] admin_can_update [OF assms])

lemma submit_own_complaint:
  assumes "newId \<notin> set (map c_id (complaints db))"
  shows "handleSubmitComplaint uid now newId ti de ca db =
           Inr (db\<lparr>complaints := complaints db @
                  [\<lparr>c_id = newId, student_id = uid, title = ti, description = de, category = ca,
                    status = pending, assigned_to = None, created_at = now, updated_at = now\<rparr>]\<rparr>)"
  using assms
  by (simp add: handleSubmitComplaint_def Let_def can_insert_complaint_def
        students_can_create_complaints_def)

lemma perform_user_ids:
  "perform uid now operation db = Inr db' \<Longrightarrow>
     map user_id (user_roles db') = map user_id (user_roles db)"
proof (cases operation)
  case (SubmitComplaint newId ti de ca)
  then show "perform uid now operation db = Inr db' \<Longrightarrow> ?thesis"
    by (auto simp: handleSubmitComplaint_def Let_def split: if_splits)
next
  case (StatusUpdate complaintId newStatus)
  then show "perform uid now operation db = Inr db' \<Longrightarrow> ?thesis"
    by (auto simp: handleStatusUpdate_def split: sum.splits)
next
  case (AssignStaff complaintId staffId)
  then show "perform uid now operation db = Inr db' \<Longrightarrow> ?thesis"
    by (auto simp: handleAssignStaff_def split: sum.splits if_splits)
next
  case (PromoteToStaff userId)
  then show "perform uid now operation db = Inr db' \<Longrightarrow> ?thesis"
    by (auto simp: handlePromoteToStaff_def split: sum.splits dest: update_user_roles_user_ids)
next
  case (DemoteToStudent userId)
  then show "perform uid now operation db = Inr db' \<Longrightarrow> ?thesis"
    by (auto simp: handleDemoteToStudent_def split: sum.splits dest: update_user_roles_user_ids)
qed

lemma step_user_ids: "map user_id (user_roles (step db req)) = map user_id (user_roles db)"
proof (cases req)
  case (fields uid now operation)
  then show ?thesis
    by (cases "perform uid now operation db") (simp_all add: perform_user_ids)
qed

lemma run_user_ids: "map user_id (user_roles (run reqs db)) = map user_id (user_roles db)"
  unfolding run_def
  by (induction reqs arbitrary: db) (simp_all add: step_user_ids)

lemma role_rows_of_user:
  "length (filter (\<lambda>row. user_id row = u) tbl) = count_list (map user_id tbl) u"
  by (induction tbl) auto

text \<open>
  An assignee need not hold the staff role: demoting a staff member leaves the
  complaints assigned to it as they are. Student 1 submits complaint 10, admin 9 assigns
  it to staff member 2 and then demotes 2.
\<close>

lemma demoted_assignee_reachable:
  "run [(1, 100, SubmitComplaint 10 ''t'' ''d'' other), (9, 300, AssignStaff 10 2),
        (9, 400, DemoteToStudent 2)]
     \<lparr>auth_users = [1, 2, 9], user_roles = [\<lparr>r_id = 1, user_id = 9, role = admin, r_created_at = 0\<rparr>,
                     \<lparr>r_id = 2, user_id = 1, role = student, r_created_at = 0\<rparr>,
                     \<lparr>r_id = 3, user_id = 2, role = staff, r_created_at = 0\<rparr>],
      complaints = [], comments = []\<rparr> =
   \<lparr>auth_users = [1, 2, 9], user_roles = [\<lparr>r_id = 1, user_id = 9, role = admin, r_created_at = 0\<rparr>,
                   \<lparr>r_id = 2, user_id = 1, role = student, r_created_at = 0\<rparr>,
                   \<lparr>r_id = 3, user_id = 2, role = student, r_created_at = 0\<rparr>],
    complaints = [\<lparr>c_id = 10, student_id = 1, title = ''t'', description = ''d'',
                    category = other, status = in_progress, assigned_to = Some 2,
                    created_at = 100, updated_at = 300\<rparr>],
    comments = []\<rparr>"
  by (simp add: run_def handleSubmitComplaint_def handleAssignStaff_def
        handleDemoteToStudent_def update_complaints_def update_user_roles_def
        can_insert_complaint_def students_can_create_complaints_def
        can_update_complaint_def can_select_complaint_def update_policies_def
        students_can_view_own_complaints_def staff_can_update_assigned_complaints_def
        admins_can_manage_all_complaints_def can_update_role_def users_can_view_own_role_def
        admins_can_manage_all_roles_def has_role_def Let_def)

section \<open>Facts about the derived views\<close>

lemma set_insert_sorted: "set (insert_sorted cmp x ys) = insert x (set ys)"
  by (induction ys) auto

lemma mset_insert_sorted: "mset (insert_sorted cmp x ys) = add_mset x (mset ys)"
  by (induction ys) auto

lemma mset_array_sort: "mset (array_sort cmp xs) = mset xs"
  unfolding array_sort_def by (induction xs) (simp_all add: mset_insert_sorted)

lemma set_array_sort: "set (array_sort cmp xs) = set xs"
  using mset_array_sort [of cmp xs] by (metis set_mset_mset)

lemma array_sort_Cons: "array_sort cmp (x # xs) = insert_sorted cmp x (array_sort cmp xs)"
  by (simp add: array_sort_def)

lemma occurs_before_insert_other:
  "occurs_before x y zs \<Longrightarrow> occurs_before x y (insert_sorted cmp z zs)"
  by (induction zs) (auto simp: set_insert_sorted)

lemma occurs_before_insert_tie:
  "y \<in> set zs \<Longrightarrow> cmp x y \<le> 0 \<Longrightarrow> occurs_before x y (insert_sorted cmp x zs)"
  by (induction zs) auto

lemma array_sort_keeps_order:
  "occurs_before x y xs \<Longrightarrow> cmp x y \<le> 0 \<Longrightarrow> occurs_before x y (array_sort cmp xs)"
proof (induction xs)
  case Nil
  then show ?case by simp
next
  case (Cons z zs)
  from Cons.prems(1) consider "z = x" "y \<in> set zs" | "occurs_before x y zs"
    by auto
  then show ?case
  proof cases
    case 1
    then show ?thesis
      using Cons.prems(2)
      by (simp add: array_sort_Cons occurs_before_insert_tie set_array_sort)
  next
    case 2
    then show ?thesis
      using Cons.IH Cons.prems(2)
      by (simp add: array_sort_Cons occurs_before_insert_other)
  qed
qed

lemma array_sort_sorted:
  "sorted_wrt (\<lambda>a b. cmp a b \<le> 0) xs \<Longrightarrow> array_sort cmp xs = xs"
proof (induction xs)
  case Nil
  then show ?case by (simp add: array_sort_def)
next
  case (Cons x xs)
  then have "array_sort cmp xs = xs" by simp
  then show ?case
    using Cons.prems by (cases xs) (simp_all add: array_sort_Cons)
qed

lemma MakeDate_back: "MakeDate (Day t - n) (TimeWithinDay t) = t - n * msPerDay"
proof -
  have "t div msPerDay * msPerDay + t mod msPerDay = t"
    by simp
  then show ?thesis
    by (simp add: MakeDate_def Day_def TimeWithinDay_def algebra_simps)
qed

text \<open>
  Moving a date \<open>n\<close> calendar days back moves the instant \<open>n\<close> times 24 hours back and
  then by the change of the zone's offset between the two dates.
\<close>

lemma setDate_back_eq:
  "setDate_back tz date n =
     date - n * msPerDay
       + (LocalTZA tz date True - LocalTZA tz (LocalTime tz date - n * msPerDay) False)"
  by (simp add: setDate_back_def Let_def LocalTime_def UTC_def MakeDate_back)

lemma Day_back: "Day (t - n * msPerDay) = Day t - n"
proof -
  have "(t + (- n) * msPerDay) div msPerDay = (- n) + t div msPerDay"
    by (rule div_mult_self1) (simp add: msPerDay_def)
  then show ?thesis by (simp add: Day_def)
qed

lemma fixed_zone_offset:
  "transitions tz = [] \<Longrightarrow> LocalTZA tz t isUTC = initial_offset tz"
  by (simp add: LocalTZA_def)

lemma setDate_back_fixed_zone:
  "transitions tz = [] \<Longrightarrow> setDate_back tz date n = date - n * msPerDay"
  by (simp add: setDate_back_eq fixed_zone_offset)

lemma upt_7: "[0..<7] = [0, 1, 2, 3, 4, 5, 6]"
  by (simp add: upt_rec)

text \<open>
  On a host whose zone is UTC the histogram has a bucket for each of the days \<open>T - 6\<close> up
  to \<open>T\<close>, with label and count of the same day.
\<close>

lemma histogram_utc_host:
  assumes "transitions tz = []" and "initial_offset tz = 0"
  shows "last7DaysData tz now cs =
     map (\<lambda>d. (d, length (filter (\<lambda>c. toISODate (created_at c) = d) cs)))
       [toISODate now - 6, toISODate now - 5, toISODate now - 4, toISODate now - 3,
        toISODate now - 2, toISODate now - 1, toISODate now]"
  using assms
  by (simp add: last7DaysData_def Let_def setDate_back_fixed_zone toISODate_def
        toLocaleDate_def LocalTime_def fixed_zone_offset Day_back upt_7)

lemma count_list_filter:
  "count_list (map f cs) n = length (filter (\<lambda>c. f c = n) cs)"
  by (induction cs) auto

lemma count_list_present: "x \<in> set xs \<Longrightarrow> 0 < count_list xs x"
  by (induction xs) auto

lemma categoryData_snoc:
  "categoryData (cs @ [c]) =
     (case find (\<lambda>item. fst item = category c) (categoryData cs) of
        Some existing \<Rightarrow> increment (category c) (categoryData cs)
      | None \<Rightarrow> categoryData cs @ [(category c, 1)])"
  by (simp add: categoryData_def Let_def split: option.split)

lemma increment_map:
  "distinct ns \<Longrightarrow>
     increment k (map (\<lambda>n. (n, g n)) ns) = map (\<lambda>n. (n, if n = k then g n + 1 else g n)) ns"
  by (induction ns) auto

text \<open>
  \<open>rev (remdups (rev xs))\<close> keeps of every value its first occurrence in \<open>xs\<close>: the head,
  then the first occurrences of the rest that are not the head.
\<close>

lemma remdups_snoc: "remdups (ys @ [x]) = filter (\<lambda>y. y \<noteq> x) (remdups ys) @ [x]"
  by (induction ys) auto

lemma first_occurrences_Cons:
  "rev (remdups (rev (x # xs))) = x # filter (\<lambda>y. y \<noteq> x) (rev (remdups (rev xs)))"
  by (simp add: remdups_snoc rev_filter)

lemma categoryData_counts:
  "categoryData cs =
     map (\<lambda>n. (n, count_list (map category cs) n)) (rev (remdups (rev (map category cs))))"
proof (induction cs rule: rev_induct)
  case Nil
  show ?case by (simp add: categoryData_def)
next
  case (snoc c cs)
  let ?xs = "map category cs"
  let ?k = "category c"
  let ?R = "rev (remdups (rev ?xs))"
  have R: "set ?R = set ?xs" "distinct ?R" by simp_all
  show ?case
  proof (cases "?k \<in> set ?xs")
    case True
    then have "\<exists>item \<in> set (categoryData cs). fst item = ?k"
      unfolding snoc.IH using R(1) by (simp add: image_iff)
    then obtain e where "find (\<lambda>item. fst item = ?k) (categoryData cs) = Some e"
      by (cases "find (\<lambda>item. fst item = ?k) (categoryData cs)") (auto simp: find_None_iff)
    then have "categoryData (cs @ [c]) = increment ?k (categoryData cs)"
      by (simp add: categoryData_snoc)
    also have "\<dots> = map (\<lambda>n. (n, if n = ?k then count_list ?xs n + 1 else count_list ?xs n)) ?R"
      unfolding snoc.IH by (rule increment_map [OF R(2)])
    also have "\<dots> = map (\<lambda>n. (n, count_list (map category (cs @ [c])) n))
                        (rev (remdups (rev (map category (cs @ [c])))))"
      using True by simp
    finally show ?thesis .
  next
    case False
    then have "find (\<lambda>item. fst item = ?k) (categoryData cs) = None"
      unfolding snoc.IH using R(1) by (auto simp: find_None_iff)
    then have "categoryData (cs @ [c]) = categoryData cs @ [(?k, 1)]"
      by (simp add: categoryData_snoc)
    also have "\<dots> = map (\<lambda>n. (n, count_list (map category (cs @ [c])) n))
                        (rev (remdups (rev (map category (cs @ [c])))))"
      unfolding snoc.IH using False by auto
    finally show ?thesis .
  qed
qed

lemma sum_counts_first_occurrences:
  "sum_list (map (count_list xs) (rev (remdups (rev xs)))) = length xs"
proof -
  have "sum_list (map (count_list xs) (rev (remdups (rev xs)))) = sum (count_list xs) (set xs)"
    by (subst sum_list_distinct_conv_sum_set) simp_all
  also have "\<dots> = length xs"
    by (rule sum_count_set) simp_all
  finally show ?thesis .
qed

section \<open>The claims\<close>

subsection \<open>Authorization\<close>

text \<open>
  C1, as amended. A principal may read a complaint if and only if it is the complaint's
  owner, or holds the staff role, or holds the admin role. Being the assignee is no
  clause of either policy that applies to \<open>SELECT\<close>: an assignee reads the complaint
  through the staff role and, unless it is the owner or an admin, not at all once that
  role is gone.
\<close>

theorem complaint_read_policy:
  "(can_select_complaint roles uid c \<longleftrightarrow>
      (uid = student_id c \<or> has_role roles uid staff \<or> has_role roles uid admin)) \<and>
   (assigned_to c = Some uid \<and> uid \<noteq> student_id c \<and> \<not> has_role roles uid staff \<and>
    \<not> has_role roles uid admin \<longrightarrow>
      \<not> can_select_complaint roles uid c)"
  by (auto simp: can_select_complaint_def students_can_view_own_complaints_def
        admins_can_manage_all_complaints_def)

theorem complaint_read_policy_witness:
  "can_select_complaint
     [\<lparr>r_id = 1, user_id = 9, role = admin, r_created_at = 0\<rparr>,
      \<lparr>r_id = 2, user_id = 1, role = student, r_created_at = 0\<rparr>,
      \<lparr>r_id = 3, user_id = 2, role = student, r_created_at = 0\<rparr>,
      \<lparr>r_id = 4, user_id = 3, role = staff, r_created_at = 0\<rparr>] 1
     \<lparr>c_id = 10, student_id = 1, title = ''t'', description = ''d'', category = other,
      status = in_progress, assigned_to = Some 2, created_at = 100, updated_at = 300\<rparr> \<and>
   can_select_complaint
     [\<lparr>r_id = 1, user_id = 9, role = admin, r_created_at = 0\<rparr>,
      \<lparr>r_id = 2, user_id = 1, role = student, r_created_at = 0\<rparr>,
      \<lparr>r_id = 3, user_id = 2, role = student, r_created_at = 0\<rparr>,
      \<lparr>r_id = 4, user_id = 3, role = staff, r_created_at = 0\<rparr>] 3
     \<lparr>c_id = 10, student_id = 1, title = ''t'', description = ''d'', category = other,
      status = in_progress, assigned_to = Some 2, created_at = 100, updated_at = 300\<rparr> \<and>
   \<not> can_select_complaint
     [\<lparr>r_id = 1, user_id = 9, role = admin, r_created_at = 0\<rparr>,
      \<lparr>r_id = 2, user_id = 1, role = student, r_created_at = 0\<rparr>,
      \<lparr>r_id = 3, user_id = 2, role = student, r_created_at = 0\<rparr>,
      \<lparr>r_id = 4, user_id = 3, role = staff, r_created_at = 0\<rparr>] 2
     \<lparr>c_id = 10, student_id = 1, title = ''t'', description = ''d'', category = other,
      status = in_progress, assigned_to = Some 2, created_at = 100, updated_at = 300\<rparr>"
proof -
  let ?roles = "[\<lparr>r_id = 1, user_id = 9, role = admin, r_created_at = 0\<rparr>,
                 \<lparr>r_id = 2, user_id = 1, role = student, r_created_at = 0\<rparr>,
                 \<lparr>r_id = 3, user_id = 2, role = student, r_created_at = 0\<rparr>,
                 \<lparr>r_id = 4, user_id = 3, role = staff, r_created_at = 0\<rparr>]"
  let ?c = "\<lparr>c_id = 10, student_id = 1, title = ''t'', description = ''d'', category = other,
             status = in_progress, assigned_to = Some 2, created_at = 100, updated_at = 300\<rparr>"
  show ?thesis
    using complaint_read_policy [of ?roles 1 ?c] complaint_read_policy [of ?roles 3 ?c]
      complaint_read_policy [of ?roles 2 ?c]
    by (simp add: has_role_def)
qed

text \<open>
  C1 as stated fails in the state \<open>demoted_assignee_reachable\<close> reaches: principal 2
  is the assignee of complaint 10, holds only the student role and is not the owner. The
  stated condition holds of it, and it cannot read.
\<close>

theorem complaint_read_assignee_counterexample:
  "\<not> (can_select_complaint
          [\<lparr>r_id = 1, user_id = 9, role = admin, r_created_at = 0\<rparr>,
           \<lparr>r_id = 2, user_id = 1, role = student, r_created_at = 0\<rparr>,
           \<lparr>r_id = 3, user_id = 2, role = student, r_created_at = 0\<rparr>] 2
          \<lparr>c_id = 10, student_id = 1, title = ''t'', description = ''d'', category = other,
           status = in_progress, assigned_to = Some 2, created_at = 100, updated_at = 300\<rparr>
       \<longleftrightarrow>
       (2 = student_id
              \<lparr>c_id = 10, student_id = 1, title = ''t'', description = ''d'', category = other,
               status = in_progress, assigned_to = Some 2, created_at = 100, updated_at = 300\<rparr>
        \<or> Some 2 = assigned_to
              \<lparr>c_id = 10, student_id = 1, title = ''t'', description = ''d'', category = other,
               status = in_progress, assigned_to = Some 2, created_at = 100, updated_at = 300\<rparr>
        \<or> has_role [\<lparr>r_id = 1, user_id = 9, role = admin, r_created_at = 0\<rparr>,
                     \<lparr>r_id = 2, user_id = 1, role = student, r_created_at = 0\<rparr>,
                     \<lparr>r_id = 3, user_id = 2, role = student, r_created_at = 0\<rparr>] 2 staff
        \<or> has_role [\<lparr>r_id = 1, user_id = 9, role = admin, r_created_at = 0\<rparr>,
                     \<lparr>r_id = 2, user_id = 1, role = student, r_created_at = 0\<rparr>,
                     \<lparr>r_id = 3, user_id = 2, role = student, r_created_at = 0\<rparr>] 2 admin))"
  by (simp add: can_select_complaint_def students_can_view_own_complaints_def
        admins_can_manage_all_complaints_def has_role_def)

text \<open>
  C3. A principal may update a complaint if and only if it holds the staff role and is
  the complaint's assignee, or holds the admin role. In particular a staff principal
  that is not the assignee (and not an admin) cannot update.
\<close>

theorem complaint_update_policy:
  "(can_update_complaint roles uid c \<longleftrightarrow>
      (has_role roles uid staff \<and> Some uid = assigned_to c \<or> has_role roles uid admin)) \<and>
   (has_role roles uid staff \<and> assigned_to c \<noteq> Some uid \<and> \<not> has_role roles uid admin \<longrightarrow>
      \<not> can_update_complaint roles uid c)"
  by (auto simp: can_update_complaint_def can_select_complaint_def update_policies_def
        students_can_view_own_complaints_def staff_can_update_assigned_complaints_def
        admins_can_manage_all_complaints_def)

theorem complaint_update_policy_witness:
  "has_role [\<lparr>r_id = 1, user_id = 7, role = staff, r_created_at = 0\<rparr>,
             \<lparr>r_id = 2, user_id = 8, role = staff, r_created_at = 0\<rparr>,
             \<lparr>r_id = 3, user_id = 9, role = admin, r_created_at = 0\<rparr>] 8 staff \<and>
   can_update_complaint
     [\<lparr>r_id = 1, user_id = 7, role = staff, r_created_at = 0\<rparr>,
      \<lparr>r_id = 2, user_id = 8, role = staff, r_created_at = 0\<rparr>,
      \<lparr>r_id = 3, user_id = 9, role = admin, r_created_at = 0\<rparr>] 7
     \<lparr>c_id = 10, student_id = 1, title = ''t'', description = ''d'', category = other,
      status = in_progress, assigned_to = Some 7, created_at = 0, updated_at = 0\<rparr> \<and>
   \<not> can_update_complaint
     [\<lparr>r_id = 1, user_id = 7, role = staff, r_created_at = 0\<rparr>,
      \<lparr>r_id = 2, user_id = 8, role = staff, r_created_at = 0\<rparr>,
      \<lparr>r_id = 3, user_id = 9, role = admin, r_created_at = 0\<rparr>] 8
     \<lparr>c_id = 10, student_id = 1, title = ''t'', description = ''d'', category = other,
      status = in_progress, assigned_to = Some 7, created_at = 0, updated_at = 0\<rparr> \<and>
   can_update_complaint
     [\<lparr>r_id = 1, user_id = 7, role = staff, r_created_at = 0\<rparr>,
      \<lparr>r_id = 2, user_id = 8, role = staff, r_created_at = 0\<rparr>,
      \<lparr>r_id = 3, user_id = 9, role = admin, r_created_at = 0\<rparr>] 9
     \<lparr>c_id = 10, student_id = 1, title = ''t'', description = ''d'', category = other,
      status = in_progress, assigned_to = Some 7, created_at = 0, updated_at = 0\<rparr>"
proof -
  let ?roles = "[\<lparr>r_id = 1, user_id = 7, role = staff, r_created_at = 0\<rparr>,
                 \<lparr>r_id = 2, user_id = 8, role = staff, r_created_at = 0\<rparr>,
                 \<lparr>r_id = 3, user_id = 9, role = admin, r_created_at = 0\<rparr>]"
  let ?c = "\<lparr>c_id = 10, student_id = 1, title = ''t'', description = ''d'', category = other,
             status = in_progress, assigned_to = Some 7, created_at = 0, updated_at = 0\<rparr>"
  show ?thesis
    using complaint_update_policy [of ?roles 7 ?c] complaint_update_policy [of ?roles 8 ?c]
      complaint_update_policy [of ?roles 9 ?c]
    by (simp add: has_role_def)
qed

text \<open>
  C4, as amended. The policy's sub-select on the complaints is itself filtered by the
  complaints' policies. So a principal may read a comment, whose parent complaint is
  \<open>c\<close>, if and only if it is the owner of \<open>c\<close>, or holds the admin role, or is the
  assignee of \<open>c\<close> and holds the staff role. A staff principal that is not the assignee
  (nor the owner, nor an admin) can read the complaint and cannot read its comments.
\<close>

theorem comment_read_policy:
  assumes "c \<in> set tbl" and "c_id c = complaint_id m" and "distinct (map c_id tbl)"
  shows "(can_select_comment roles uid tbl m \<longleftrightarrow>
            (uid = student_id c \<or> has_role roles uid admin \<or>
             has_role roles uid staff \<and> assigned_to c = Some uid)) \<and>
         (has_role roles uid staff \<and> assigned_to c \<noteq> Some uid \<and> uid \<noteq> student_id c \<and>
          \<not> has_role roles uid admin \<longrightarrow>
            can_select_complaint roles uid c \<and> \<not> can_select_comment roles uid tbl m)"
  unfolding comment_read_parent [OF assms]
  by (auto simp: can_select_complaint_def students_can_view_own_complaints_def
        admins_can_manage_all_complaints_def)

text \<open>
  C4 as stated fails in the same state: the assignee that holds only the student role
  cannot select the parent complaint, so the sub-select finds no row.
\<close>

theorem comment_read_assignee_counterexample:
  "\<not> (can_select_comment
          [\<lparr>r_id = 1, user_id = 9, role = admin, r_created_at = 0\<rparr>,
           \<lparr>r_id = 2, user_id = 1, role = student, r_created_at = 0\<rparr>,
           \<lparr>r_id = 3, user_id = 2, role = student, r_created_at = 0\<rparr>] 2
          [\<lparr>c_id = 10, student_id = 1, title = ''t'', description = ''d'', category = other,
            status = in_progress, assigned_to = Some 2, created_at = 100, updated_at = 300\<rparr>]
          \<lparr>m_id = 20, complaint_id = 10, m_user_id = 1, message = ''m'', m_created_at = 500\<rparr>
       \<longleftrightarrow>
       (2 = student_id
              \<lparr>c_id = 10, student_id = 1, title = ''t'', description = ''d'', category = other,
               status = in_progress, assigned_to = Some 2, created_at = 100, updated_at = 300\<rparr>
        \<or> Some 2 = assigned_to
              \<lparr>c_id = 10, student_id = 1, title = ''t'', description = ''d'', category = other,
               status = in_progress, assigned_to = Some 2, created_at = 100, updated_at = 300\<rparr>
        \<or> has_role [\<lparr>r_id = 1, user_id = 9, role = admin, r_created_at = 0\<rparr>,
                     \<lparr>r_id = 2, user_id = 1, role = student, r_created_at = 0\<rparr>,
                     \<lparr>r_id = 3, user_id = 2, role = student, r_created_at = 0\<rparr>] 2 admin))"
  by (simp add: can_select_comment_def users_can_view_comments_on_accessible_complaints_def
        can_select_complaint_def students_can_view_own_complaints_def
        admins_can_manage_all_complaints_def has_role_def)

theorem comment_read_policy_witness:
  "can_select_comment
     [\<lparr>r_id = 1, user_id = 7, role = staff, r_created_at = 0\<rparr>,
      \<lparr>r_id = 2, user_id = 8, role = staff, r_created_at = 0\<rparr>] 7
     [\<lparr>c_id = 10, student_id = 1, title = ''t'', description = ''d'', category = other,
       status = in_progress, assigned_to = Some 7, created_at = 0, updated_at = 0\<rparr>]
     \<lparr>m_id = 20, complaint_id = 10, m_user_id = 1, message = ''m'', m_created_at = 5\<rparr> \<and>
   can_select_complaint
     [\<lparr>r_id = 1, user_id = 7, role = staff, r_created_at = 0\<rparr>,
      \<lparr>r_id = 2, user_id = 8, role = staff, r_created_at = 0\<rparr>] 8
     \<lparr>c_id = 10, student_id = 1, title = ''t'', description = ''d'', category = other,
      status = in_progress, assigned_to = Some 7, created_at = 0, updated_at = 0\<rparr> \<and>
   \<not> can_select_comment
     [\<lparr>r_id = 1, user_id = 7, role = staff, r_created_at = 0\<rparr>,
      \<lparr>r_id = 2, user_id = 8, role = staff, r_created_at = 0\<rparr>] 8
     [\<lparr>c_id = 10, student_id = 1, title = ''t'', description = ''d'', category = other,
       status = in_progress, assigned_to = Some 7, created_at = 0, updated_at = 0\<rparr>]
     \<lparr>m_id = 20, complaint_id = 10, m_user_id = 1, message = ''m'', m_created_at = 5\<rparr>"
proof -
  let ?roles = "[\<lparr>r_id = 1, user_id = 7, role = staff, r_created_at = 0\<rparr>,
                 \<lparr>r_id = 2, user_id = 8, role = staff, r_created_at = 0\<rparr>]"
  let ?c = "\<lparr>c_id = 10, student_id = 1, title = ''t'', description = ''d'', category = other,
             status = in_progress, assigned_to = Some 7, created_at = 0, updated_at = 0\<rparr>"
  let ?m = "\<lparr>m_id = 20, complaint_id = 10, m_user_id = 1, message = ''m'', m_created_at = 5\<rparr>"
  have h: "?c \<in> set [?c]" "c_id ?c = complaint_id ?m" "distinct (map c_id [?c])"
    by simp_all
  show ?thesis
    using comment_read_policy [OF h, of ?roles 7] comment_read_policy [OF h, of ?roles 8]
    by (simp add: has_role_def)
qed

subsection \<open>Lifecycle\<close>

text \<open>
  C2, as amended. An assignment does alter the status: \<open>handleAssignStaff\<close> writes
  \<open>assigned_to\<close> and \<open>status\<close> in one statement. Whenever it succeeds, exactly the
  complaints of the given id that the caller may update are written, each with
  \<open>assigned_to\<close> the chosen staff id, \<open>status\<close> \<open>in_progress\<close> and \<open>updated_at\<close> refreshed,
  whatever its status and assignee were before, and nothing else is changed. For an
  admin and a staff id that is a user it succeeds and these are all complaints of the
  id; for an admin and a staff id that is no user it fails on the foreign key when a
  complaint has the id; for a caller that may update no complaint of the id it succeeds
  and writes nothing; for a caller that is no admin and may update one, it fails on row
  security unless the staff id is the caller's own.
\<close>

theorem assign_staff_effect:
  "(\<forall>db'. handleAssignStaff uid now complaintId staffId db = Inr db' \<longrightarrow>
       db' = db\<lparr>complaints :=
               map (\<lambda>c. if c_id c = complaintId \<and> can_update_complaint (user_roles db) uid c
                         then c\<lparr>assigned_to := Some staffId, status := in_progress, updated_at := now\<rparr>
                         else c) (complaints db)\<rparr>) \<and>
   (has_role (user_roles db) uid admin \<and> staffId \<in> set (auth_users db) \<longrightarrow>
      handleAssignStaff uid now complaintId staffId db =
        Inr (db\<lparr>complaints :=
               map (\<lambda>c. if c_id c = complaintId
                         then c\<lparr>assigned_to := Some staffId, status := in_progress, updated_at := now\<rparr>
                         else c) (complaints db)\<rparr>)) \<and>
   (has_role (user_roles db) uid admin \<and> staffId \<notin> set (auth_users db) \<and>
    complaintId \<in> set (map c_id (complaints db)) \<longrightarrow>
      handleAssignStaff uid now complaintId staffId db = Inl foreign_key_violation) \<and>
   ((\<forall>c \<in> set (complaints db).
        c_id c = complaintId \<longrightarrow> \<not> can_update_complaint (user_roles db) uid c) \<longrightarrow>
      handleAssignStaff uid now complaintId staffId db = Inr db) \<and>
   (\<not> has_role (user_roles db) uid admin \<and> staffId \<noteq> uid \<and>
    (\<exists>c \<in> set (complaints db).
        c_id c = complaintId \<and> can_update_complaint (user_roles db) uid c) \<longrightarrow>
      handleAssignStaff uid now complaintId staffId db = Inl row_security_violation)"
proof (intro conjI allI impI)
  fix db'
  assume "handleAssignStaff uid now complaintId staffId db = Inr db'"
  then obtain tbl where tbl:
    "update_complaints (user_roles db) uid now complaintId
       (\<lambda>c. c\<lparr>assigned_to := Some staffId, status := in_progress\<rparr>) (complaints db) = Inr tbl"
    and db': "db' = db\<lparr>complaints := tbl\<rparr>"
    by (auto simp: handleAssignStaff_def split: sum.splits if_splits)
  show "db' = db\<lparr>complaints :=
               map (\<lambda>c. if c_id c = complaintId \<and> can_update_complaint (user_roles db) uid c
                         then c\<lparr>assigned_to := Some staffId, status := in_progress, updated_at := now\<rparr>
                         else c) (complaints db)\<rparr>"
    unfolding db' update_complaints_cases [OF tbl] by simp
next
  assume "has_role (user_roles db) uid admin \<and> staffId \<in> set (auth_users db)"
  then show "handleAssignStaff uid now complaintId staffId db =
        Inr (db\<lparr>complaints :=
               map (\<lambda>c. if c_id c = complaintId
                         then c\<lparr>assigned_to := Some staffId, status := in_progress, updated_at := now\<rparr>
                         else c) (complaints db)\<rparr>)"
    by (simp add: handleAssignStaff_def admin_update_complaints)
next
  assume a: "has_role (user_roles db) uid admin \<and> staffId \<notin> set (auth_users db) \<and>
    complaintId \<in> set (map c_id (complaints db))"
  then have "\<exists>c \<in> set (complaints db).
      c_id c = complaintId \<and> can_update_complaint (user_roles db) uid c"
    by (auto simp: admin_can_update)
  with a show "handleAssignStaff uid now complaintId staffId db = Inl foreign_key_violation"
    by (simp add: handleAssignStaff_def admin_update_complaints)
next
  assume n: "\<forall>c \<in> set (complaints db).
        c_id c = complaintId \<longrightarrow> \<not> can_update_complaint (user_roles db) uid c"
  then have "update_complaints (user_roles db) uid now complaintId
       (\<lambda>c. c\<lparr>assigned_to := Some staffId, status := in_progress\<rparr>) (complaints db) =
       Inr (complaints db)"
    by (rule update_complaints_none)
  with n show "handleAssignStaff uid now complaintId staffId db = Inr db"
    by (auto simp: handleAssignStaff_def)
next
  assume a: "\<not> has_role (user_roles db) uid admin \<and> staffId \<noteq> uid \<and>
    (\<exists>c \<in> set (complaints db).
        c_id c = complaintId \<and> can_update_complaint (user_roles db) uid c)"
  then obtain c where c: "c \<in> set (complaints db)" "c_id c = complaintId"
    "can_update_complaint (user_roles db) uid c"
    by blast
  have "\<not> update_policies (user_roles db) uid
          (c\<lparr>assigned_to := Some staffId, status := in_progress, updated_at := now\<rparr>)"
    using a by (auto simp: update_policies_def staff_can_update_assigned_complaints_def
        admins_can_manage_all_complaints_def)
  with c have "update_complaints (user_roles db) uid now complaintId
       (\<lambda>c. c\<lparr>assigned_to := Some staffId, status := in_progress\<rparr>) (complaints db) =
       Inl row_security_violation"
    unfolding update_complaints_def Let_def by auto
  then show "handleAssignStaff uid now complaintId staffId db = Inl row_security_violation"
    by (simp add: handleAssignStaff_def)
qed

text \<open>
  C2 as stated fails: admin 9 re-assigns complaint 10, resolved and assigned to staff 2,
  to staff 3, and the complaint is \<open>in_progress\<close> afterwards.
\<close>

theorem assign_staff_resets_status_counterexample:
  "handleAssignStaff 9 500 10 3
     \<lparr>auth_users = [1, 2, 3, 9],
      user_roles = [\<lparr>r_id = 1, user_id = 9, role = admin, r_created_at = 0\<rparr>,
                     \<lparr>r_id = 2, user_id = 2, role = staff, r_created_at = 0\<rparr>,
                     \<lparr>r_id = 3, user_id = 3, role = staff, r_created_at = 0\<rparr>],
      complaints = [\<lparr>c_id = 10, student_id = 1, title = ''t'', description = ''d'',
                      category = other, status = resolved, assigned_to = Some 2,
                      created_at = 100, updated_at = 200\<rparr>],
      comments = []\<rparr> =
   Inr \<lparr>auth_users = [1, 2, 3, 9],
        user_roles = [\<lparr>r_id = 1, user_id = 9, role = admin, r_created_at = 0\<rparr>,
                         \<lparr>r_id = 2, user_id = 2, role = staff, r_created_at = 0\<rparr>,
                         \<lparr>r_id = 3, user_id = 3, role = staff, r_created_at = 0\<rparr>],
        complaints = [\<lparr>c_id = 10, student_id = 1, title = ''t'', description = ''d'',
                        category = other, status = in_progress, assigned_to = Some 3,
                        created_at = 100, updated_at = 500\<rparr>],
        comments = []\<rparr>"
  by (simp add: handleAssignStaff_def update_complaints_def can_update_complaint_def
        can_select_complaint_def update_policies_def students_can_view_own_complaints_def
        staff_can_update_assigned_complaints_def admins_can_manage_all_complaints_def
        has_role_def Let_def)

theorem assign_staff_effect_witness:
  "handleAssignStaff 9 500 10 3
     \<lparr>auth_users = [1, 2, 3, 9],
      user_roles = [\<lparr>r_id = 1, user_id = 9, role = admin, r_created_at = 0\<rparr>,
                     \<lparr>r_id = 2, user_id = 2, role = staff, r_created_at = 0\<rparr>,
                     \<lparr>r_id = 3, user_id = 3, role = staff, r_created_at = 0\<rparr>],
      complaints = [\<lparr>c_id = 10, student_id = 1, title = ''t'', description = ''d'',
                      category = other, status = pending, assigned_to = Some 2,
                      created_at = 100, updated_at = 100\<rparr>,
                    \<lparr>c_id = 11, student_id = 1, title = ''u'', description = ''e'',
                      category = academic, status = pending, assigned_to = None,
                      created_at = 150, updated_at = 150\<rparr>],
      comments = []\<rparr> =
   Inr \<lparr>auth_users = [1, 2, 3, 9],
        user_roles = [\<lparr>r_id = 1, user_id = 9, role = admin, r_created_at = 0\<rparr>,
                       \<lparr>r_id = 2, user_id = 2, role = staff, r_created_at = 0\<rparr>,
                       \<lparr>r_id = 3, user_id = 3, role = staff, r_created_at = 0\<rparr>],
        complaints = [\<lparr>c_id = 10, student_id = 1, title = ''t'', description = ''d'',
                        category = other, status = in_progress, assigned_to = Some 3,
                        created_at = 100, updated_at = 500\<rparr>,
                      \<lparr>c_id = 11, student_id = 1, title = ''u'', description = ''e'',
                        category = academic, status = pending, assigned_to = None,
                        created_at = 150, updated_at = 150\<rparr>],
        comments = []\<rparr> \<and>
   handleAssignStaff 9 500 10 77
     \<lparr>auth_users = [1, 2, 3, 9],
      user_roles = [\<lparr>r_id = 1, user_id = 9, role = admin, r_created_at = 0\<rparr>,
                     \<lparr>r_id = 2, user_id = 2, role = staff, r_created_at = 0\<rparr>,
                     \<lparr>r_id = 3, user_id = 3, role = staff, r_created_at = 0\<rparr>],
      complaints = [\<lparr>c_id = 10, student_id = 1, title = ''t'', description = ''d'',
                      category = other, status = pending, assigned_to = Some 2,
                      created_at = 100, updated_at = 100\<rparr>,
                    \<lparr>c_id = 11, student_id = 1, title = ''u'', description = ''e'',
                      category = academic, status = pending, assigned_to = None,
                      created_at = 150, updated_at = 150\<rparr>],
      comments = []\<rparr> = Inl foreign_key_violation \<and>
   handleAssignStaff 3 500 10 3
     \<lparr>auth_users = [1, 2, 3, 9],
      user_roles = [\<lparr>r_id = 1, user_id = 9, role = admin, r_created_at = 0\<rparr>,
                     \<lparr>r_id = 2, user_id = 2, role = staff, r_created_at = 0\<rparr>,
                     \<lparr>r_id = 3, user_id = 3, role = staff, r_created_at = 0\<rparr>],
      complaints = [\<lparr>c_id = 10, student_id = 1, title = ''t'', description = ''d'',
                      category = other, status = pending, assigned_to = Some 2,
                      created_at = 100, updated_at = 100\<rparr>,
                    \<lparr>c_id = 11, student_id = 1, title = ''u'', description = ''e'',
                      category = academic, status = pending, assigned_to = None,
                      created_at = 150, updated_at = 150\<rparr>],
      comments = []\<rparr> =
   Inr \<lparr>auth_users = [1, 2, 3, 9],
        user_roles = [\<lparr>r_id = 1, user_id = 9, role = admin, r_created_at = 0\<rparr>,
                       \<lparr>r_id = 2, user_id = 2, role = staff, r_created_at = 0\<rparr>,
                       \<lparr>r_id = 3, user_id = 3, role = staff, r_created_at = 0\<rparr>],
        complaints = [\<lparr>c_id = 10, student_id = 1, title = ''t'', description = ''d'',
                        category = other, status = pending, assigned_to = Some 2,
                        created_at = 100, updated_at = 100\<rparr>,
                      \<lparr>c_id = 11, student_id = 1, title = ''u'', description = ''e'',
                        category = academic, status = pending, assigned_to = None,
                        created_at = 150, updated_at = 150\<rparr>],
        comments = []\<rparr> \<and>
   handleAssignStaff 2 500 10 3
     \<lparr>auth_users = [1, 2, 3, 9],
      user_roles = [\<lparr>r_id = 1, user_id = 9, role = admin, r_created_at = 0\<rparr>,
                     \<lparr>r_id = 2, user_id = 2, role = staff, r_created_at = 0\<rparr>,
                     \<lparr>r_id = 3, user_id = 3, role = staff, r_created_at = 0\<rparr>],
      complaints = [\<lparr>c_id = 10, student_id = 1, title = ''t'', description = ''d'',
                      category = other, status = pending, assigned_to = Some 2,
                      created_at = 100, updated_at = 100\<rparr>,
                    \<lparr>c_id = 11, student_id = 1, title = ''u'', description = ''e'',
                      category = academic, status = pending, assigned_to = None,
                      created_at = 150, updated_at = 150\<rparr>],
      comments = []\<rparr> = Inl row_security_violation"
proof -
  let ?db = "\<lparr>auth_users = [1, 2, 3, 9],
      user_roles = [\<lparr>r_id = 1, user_id = 9, role = admin, r_created_at = 0\<rparr>,
                     \<lparr>r_id = 2, user_id = 2, role = staff, r_created_at = 0\<rparr>,
                     \<lparr>r_id = 3, user_id = 3, role = staff, r_created_at = 0\<rparr>],
      complaints = [\<lparr>c_id = 10, student_id = 1, title = ''t'', description = ''d'',
                      category = other, status = pending, assigned_to = Some 2,
                      created_at = 100, updated_at = 100\<rparr>,
                    \<lparr>c_id = 11, student_id = 1, title = ''u'', description = ''e'',
                      category = academic, status = pending, assigned_to = None,
                      created_at = 150, updated_at = 150\<rparr>],
      comments = []\<rparr>"
  have pa: "has_role (user_roles ?db) 9 admin \<and> 3 \<in> set (auth_users ?db)"
    by (simp add: has_role_def)
  have pb: "has_role (user_roles ?db) 9 admin \<and> 77 \<notin> set (auth_users ?db) \<and>
      10 \<in> set (map c_id (complaints ?db))"
    by (simp add: has_role_def)
  have pc: "\<forall>c \<in> set (complaints ?db).
      c_id c = 10 \<longrightarrow> \<not> can_update_complaint (user_roles ?db) 3 c"
    by (simp add: has_role_def can_update_complaint_def can_select_complaint_def
        update_policies_def students_can_view_own_complaints_def
        staff_can_update_assigned_complaints_def admins_can_manage_all_complaints_def)
  have pd: "\<not> has_role (user_roles ?db) 2 admin \<and> 3 \<noteq> (2::nat) \<and>
      (\<exists>c \<in> set (complaints ?db).
          c_id c = 10 \<and> can_update_complaint (user_roles ?db) 2 c)"
    by (simp add: has_role_def can_update_complaint_def can_select_complaint_def
        update_policies_def students_can_view_own_complaints_def
        staff_can_update_assigned_complaints_def admins_can_manage_all_complaints_def)
  note eff = assign_staff_effect [where now = 500 and complaintId = 10 and db = ?db]
  have a: "handleAssignStaff 9 500 10 3 ?db =
      Inr (?db\<lparr>complaints :=
               map (\<lambda>c. if c_id c = 10
                         then c\<lparr>assigned_to := Some 3, status := in_progress, updated_at := 500\<rparr>
                         else c) (complaints ?db)\<rparr>)"
    by (rule eff [of 9 3, THEN conjunct2, THEN conjunct1, THEN mp, OF pa])
  have b: "handleAssignStaff 9 500 10 77 ?db = Inl foreign_key_violation"
    by (rule eff [of 9 77, THEN conjunct2, THEN conjunct2, THEN conjunct1, THEN mp, OF pb])
  have c: "handleAssignStaff 3 500 10 3 ?db = Inr ?db"
    by (rule eff [of 3 3, THEN conjunct2, THEN conjunct2, THEN conjunct2, THEN conjunct1,
          THEN mp, OF pc])
  have d: "handleAssignStaff 2 500 10 3 ?db = Inl row_security_violation"
    by (rule eff [of 2 3, THEN conjunct2, THEN conjunct2, THEN conjunct2, THEN conjunct2,
          THEN mp, OF pd])
  from a b c d show ?thesis by simp
qed

text \<open>
  C5. Promotions and demotions update role rows in place: through any sequence of
  handler calls, by any principals, a user that has exactly one role row keeps exactly
  one role row (a statement that would break \<open>UNIQUE(user_id, role)\<close> is aborted and
  leaves the table as it was).
\<close>

theorem role_uniqueness:
  assumes "length (filter (\<lambda>row. user_id row = u) (user_roles db)) = 1"
  shows "length (filter (\<lambda>row. user_id row = u) (user_roles (run reqs db))) = 1"
  using assms by (simp add: role_rows_of_user run_user_ids)

theorem role_uniqueness_witness:
  "length (filter (\<lambda>row. user_id row = 2)
     (user_roles \<lparr>auth_users = [1, 2, 9], user_roles = [\<lparr>r_id = 1, user_id = 9, role = admin, r_created_at = 0\<rparr>,
                                 \<lparr>r_id = 2, user_id = 2, role = student, r_created_at = 0\<rparr>],
                  complaints = [], comments = []\<rparr>)) = 1 \<and>
   length (filter (\<lambda>row. user_id row = 2)
     (user_roles
        (run [(9, 10, PromoteToStaff 2), (9, 20, DemoteToStudent 2), (9, 30, PromoteToStaff 2)]
           \<lparr>auth_users = [1, 2, 9], user_roles = [\<lparr>r_id = 1, user_id = 9, role = admin, r_created_at = 0\<rparr>,
                           \<lparr>r_id = 2, user_id = 2, role = student, r_created_at = 0\<rparr>],
            complaints = [], comments = []\<rparr>))) = 1 \<and>
   map role
     (user_roles
        (run [(9, 10, PromoteToStaff 2), (9, 20, DemoteToStudent 2), (9, 30, PromoteToStaff 2)]
           \<lparr>auth_users = [1, 2, 9], user_roles = [\<lparr>r_id = 1, user_id = 9, role = admin, r_created_at = 0\<rparr>,
                           \<lparr>r_id = 2, user_id = 2, role = student, r_created_at = 0\<rparr>],
            complaints = [], comments = []\<rparr>)) = [admin, staff]"
proof -
  let ?db = "\<lparr>auth_users = [1, 2, 9], user_roles = [\<lparr>r_id = 1, user_id = 9, role = admin, r_created_at = 0\<rparr>,
                              \<lparr>r_id = 2, user_id = 2, role = student, r_created_at = 0\<rparr>],
               complaints = [], comments = []\<rparr>"
  have h: "length (filter (\<lambda>row. user_id row = 2) (user_roles ?db)) = 1"
    by simp
  have r: "map role (user_roles
        (run [(9, 10, PromoteToStaff 2), (9, 20, DemoteToStudent 2), (9, 30, PromoteToStaff 2)] ?db))
      = [admin, staff]"
    by (simp add: run_def handlePromoteToStaff_def handleDemoteToStudent_def
          update_user_roles_def can_update_role_def users_can_view_own_role_def
          admins_can_manage_all_roles_def has_role_def Let_def)
  show ?thesis
    using h r role_uniqueness [OF h,
      of "[(9, 10, PromoteToStaff 2), (9, 20, DemoteToStudent 2), (9, 30, PromoteToStaff 2)]"]
    by simp
qed

text \<open>
  C6. Status and assignment are not coupled. From any state in which principal \<open>a\<close> holds
  the admin role: a student \<open>s\<close> submits a complaint (it gets the fresh id \<open>newId\<close>), then
  \<open>a\<close> sets its status to \<open>resolved\<close> on the detail page. Both statements are permitted
  and take effect, and the complaint is then \<open>resolved\<close> with no assignee.
\<close>

theorem resolved_while_unassigned:
  assumes "has_role (user_roles db) a admin"
    and "newId \<notin> set (map c_id (complaints db))"
  shows "\<exists>db1 db2.
     handleSubmitComplaint s t1 newId ti de ca db = Inr db1 \<and>
     handleStatusUpdate a t2 newId resolved db1 = Inr db2 \<and>
     run [(s, t1, SubmitComplaint newId ti de ca), (a, t2, StatusUpdate newId resolved)] db = db2 \<and>
     (\<exists>c \<in> set (complaints db2).
          c_id c = newId \<and> student_id c = s \<and> status c = resolved \<and> assigned_to c = None)"
proof -
  define row where "row = \<lparr>c_id = newId, student_id = s, title = ti, description = de, category = ca,
                    status = pending, assigned_to = None, created_at = t1, updated_at = t1\<rparr>"
  define db1 where "db1 = db\<lparr>complaints := complaints db @ [row]\<rparr>"
  define db2 where "db2 = db1\<lparr>complaints :=
     map (\<lambda>c. if c_id c = newId then c\<lparr>status := resolved, updated_at := t2\<rparr> else c) (complaints db1)\<rparr>"
  have s1: "handleSubmitComplaint s t1 newId ti de ca db = Inr db1"
    unfolding db1_def row_def by (rule submit_own_complaint [OF assms(2)])
  have "has_role (user_roles db1) a admin"
    using assms(1) by (simp add: db1_def)
  then have s2: "handleStatusUpdate a t2 newId resolved db1 = Inr db2"
    by (simp add: handleStatusUpdate_def admin_update_complaints db2_def)
  have r: "run [(s, t1, SubmitComplaint newId ti de ca), (a, t2, StatusUpdate newId resolved)] db = db2"
    by (simp add: run_def s1 s2)
  have "row\<lparr>status := resolved, updated_at := t2\<rparr> \<in> set (complaints db2)"
    by (simp add: db2_def db1_def row_def)
  moreover have "c_id (row\<lparr>status := resolved, updated_at := t2\<rparr>) = newId"
    "student_id (row\<lparr>status := resolved, updated_at := t2\<rparr>) = s"
    "status (row\<lparr>status := resolved, updated_at := t2\<rparr>) = resolved"
    "assigned_to (row\<lparr>status := resolved, updated_at := t2\<rparr>) = None"
    by (simp_all add: row_def)
  ultimately have "\<exists>c \<in> set (complaints db2).
          c_id c = newId \<and> student_id c = s \<and> status c = resolved \<and> assigned_to c = None"
    by blast
  with s1 s2 r show ?thesis by blast
qed

theorem resolved_while_unassigned_witness:
  "has_role [\<lparr>r_id = 1, user_id = 9, role = admin, r_created_at = 0\<rparr>,
             \<lparr>r_id = 2, user_id = 1, role = student, r_created_at = 0\<rparr>] 9 admin \<and>
   (\<exists>c \<in> set (complaints
        (run [(1, 100, SubmitComplaint 10 ''t'' ''d'' technical), (9, 200, StatusUpdate 10 resolved)]
           \<lparr>auth_users = [1, 2, 9], user_roles = [\<lparr>r_id = 1, user_id = 9, role = admin, r_created_at = 0\<rparr>,
                           \<lparr>r_id = 2, user_id = 1, role = student, r_created_at = 0\<rparr>],
            complaints = [], comments = []\<rparr>)).
      c_id c = 10 \<and> student_id c = 1 \<and> status c = resolved \<and> assigned_to c = None)"
proof -
  let ?db = "\<lparr>auth_users = [1, 2, 9], user_roles = [\<lparr>r_id = 1, user_id = 9, role = admin, r_created_at = 0\<rparr>,
                              \<lparr>r_id = 2, user_id = 1, role = student, r_created_at = 0\<rparr>],
               complaints = [], comments = []\<rparr>"
  have h1: "has_role (user_roles ?db) 9 admin"
    by (simp add: has_role_def)
  have h2: "10 \<notin> set (map c_id (complaints ?db))"
    by simp
  from resolved_while_unassigned [OF h1 h2, of 1 100 "''t''" "''d''" technical 200]
  have "\<exists>c \<in> set (complaints
        (run [(1, 100, SubmitComplaint 10 ''t'' ''d'' technical), (9, 200, StatusUpdate 10 resolved)] ?db)).
      c_id c = 10 \<and> student_id c = 1 \<and> status c = resolved \<and> assigned_to c = None"
    by blast
  with h1 show ?thesis by simp
qed

subsection \<open>Derived views\<close>

text \<open>
  C7. The histogram is to have one bucket for each calendar day from \<open>T - 6\<close> to \<open>T\<close>,
  each with the count of the complaints created on that day. The code does not achieve
  this: it steps back local calendar days, labels a bucket with the local day, and counts
  over the UTC day of the same instant. The host is in New York (UTC-5, UTC-4 from
  2024-03-10 07:00 UTC to 2024-11-03 06:00 UTC). At 2024-11-04 00:30 UTC, the local evening
  of 3 November, the buckets are labelled with the local days 28 October to 3
  November (days 20024 to 20030) and count the UTC days 20024 to 20029 and 20031: a
  complaint created on 3 November at 12:00 UTC, which is 3 November in New York too, is
  counted in no bucket. At 2024-03-10 23:30 UTC the buckets of 9 March and of 10 March
  both count the UTC day 10 March: a complaint of that day is counted twice.
\<close>

theorem histogram_misses_day:
  "last7DaysData
     \<lparr>initial_offset = - 18000000,
      transitions = [(1710054000000, - 14400000), (1730613600000, - 18000000)]\<rparr>
     1730680200000
     [\<lparr>c_id = 1, student_id = 1, title = ''a'', description = ''d'', category = other,
       status = pending, assigned_to = None, created_at = 1730635200000,
       updated_at = 1730635200000\<rparr>] =
     [(20024, 0), (20025, 0), (20026, 0), (20027, 0), (20028, 0), (20029, 0), (20030, 0)] \<and>
   toISODate 1730635200000 = 20030 \<and>
   toLocaleDate
     \<lparr>initial_offset = - 18000000,
      transitions = [(1710054000000, - 14400000), (1730613600000, - 18000000)]\<rparr>
     1730635200000 = 20030 \<and>
   toISODate (setDate_back
     \<lparr>initial_offset = - 18000000,
      transitions = [(1710054000000, - 14400000), (1730613600000, - 18000000)]\<rparr>
     1730680200000 1) = 20029 \<and>
   toISODate (setDate_back
     \<lparr>initial_offset = - 18000000,
      transitions = [(1710054000000, - 14400000), (1730613600000, - 18000000)]\<rparr>
     1730680200000 0) = 20031 \<and>
   last7DaysData
     \<lparr>initial_offset = - 18000000,
      transitions = [(1710054000000, - 14400000), (1730613600000, - 18000000)]\<rparr>
     1710113400000
     [\<lparr>c_id = 2, student_id = 1, title = ''b'', description = ''d'', category = other,
       status = pending, assigned_to = None, created_at = 1710072000000,
       updated_at = 1710072000000\<rparr>] =
     [(19786, 0), (19787, 0), (19788, 0), (19789, 0), (19790, 0), (19791, 1), (19792, 1)]"
  by (simp add: last7DaysData_def Let_def setDate_back_eq LocalTZA_def toISODate_def
        toLocaleDate_def LocalTime_def Day_def msPerDay_def upt_7)

text \<open>
  C8, as amended. A complaint of the snapshot is in the overdue set if and only if it is
  pending, has no assignee and was created before the instant three calendar days
  before now in the host's time zone. That instant is 72 hours before now, moved by the
  change of the zone's UTC offset between the two dates (none, or an hour across a
  daylight-saving change). Where the two offsets differ by less than a day, a pending,
  unassigned complaint created four days (96 hours) ago is overdue and one created two
  days (48 hours) ago is not.
\<close>

theorem overdue_set:
  "(c \<in> set (overdueComplaints tz now cs) \<longleftrightarrow>
      c \<in> set cs \<and> status c = pending \<and> assigned_to c = None \<and>
      created_at c < setDate_back tz now 3) \<and>
   setDate_back tz now 3 =
     now - 3 * 86400000 +
       (LocalTZA tz now True - LocalTZA tz (LocalTime tz now - 3 * 86400000) False) \<and>
   (\<bar>LocalTZA tz now True - LocalTZA tz (LocalTime tz now - 3 * 86400000) False\<bar> < 86400000 \<and>
    status c = pending \<and> assigned_to c = None \<and> created_at c = now - 4 * 86400000 \<longrightarrow>
      overdueComplaints tz now [c] = [c]) \<and>
   (\<bar>LocalTZA tz now True - LocalTZA tz (LocalTime tz now - 3 * 86400000) False\<bar> < 86400000 \<and>
    status c = pending \<and> assigned_to c = None \<and> created_at c = now - 2 * 86400000 \<longrightarrow>
      overdueComplaints tz now [c] = [])"
proof -
  have t: "setDate_back tz now 3 =
     now - 3 * 86400000 +
       (LocalTZA tz now True - LocalTZA tz (LocalTime tz now - 3 * 86400000) False)"
    using setDate_back_eq [of tz now 3] by (simp add: msPerDay_def)
  show ?thesis
    unfolding overdueComplaints_def Let_def t by auto
qed

text \<open>
  C8 as stated fails: with the host in New York at 2024-11-04 00:30 UTC, three calendar
  days back is 73 hours back. A pending, unassigned complaint created on 2024-11-01 at
  00:00 UTC is 72 hours and a half old, older than now minus three days, and is not in
  the overdue set.
\<close>

theorem overdue_dst_counterexample:
  "\<not> (\<lparr>c_id = 1, student_id = 1, title = ''a'', description = ''d'', category = other,
         status = pending, assigned_to = None, created_at = 1730419200000,
         updated_at = 1730419200000\<rparr>
        \<in> set (overdueComplaints
                 \<lparr>initial_offset = - 18000000,
                  transitions = [(1710054000000, - 14400000), (1730613600000, - 18000000)]\<rparr>
                 1730680200000
                 [\<lparr>c_id = 1, student_id = 1, title = ''a'', description = ''d'',
                    category = other, status = pending, assigned_to = None,
                    created_at = 1730419200000, updated_at = 1730419200000\<rparr>])
       \<longleftrightarrow>
       (status \<lparr>c_id = 1, student_id = 1, title = ''a'', description = ''d'', category = other,
                 status = pending, assigned_to = None, created_at = 1730419200000,
                 updated_at = 1730419200000\<rparr> = pending \<and>
        assigned_to \<lparr>c_id = 1, student_id = 1, title = ''a'', description = ''d'',
                      category = other, status = pending, assigned_to = None,
                      created_at = 1730419200000, updated_at = 1730419200000\<rparr> = None \<and>
        created_at \<lparr>c_id = 1, student_id = 1, title = ''a'', description = ''d'',
                     category = other, status = pending, assigned_to = None,
                     created_at = 1730419200000, updated_at = 1730419200000\<rparr>
          < 1730680200000 - 3 * 86400000))"
  by (simp add: overdueComplaints_def Let_def setDate_back_eq LocalTZA_def LocalTime_def
        msPerDay_def)

theorem overdue_set_witness:
  "setDate_back
     \<lparr>initial_offset = - 18000000,
      transitions = [(1710054000000, - 14400000), (1730613600000, - 18000000)]\<rparr>
     1730680200000 3 = 1730417400000 \<and>
   overdueComplaints
     \<lparr>initial_offset = - 18000000,
      transitions = [(1710054000000, - 14400000), (1730613600000, - 18000000)]\<rparr>
     1730680200000
     [\<lparr>c_id = 1, student_id = 1, title = ''a'', description = ''d'', category = other,
       status = pending, assigned_to = None, created_at = 1730334600000, updated_at = 0\<rparr>] =
     [\<lparr>c_id = 1, student_id = 1, title = ''a'', description = ''d'', category = other,
       status = pending, assigned_to = None, created_at = 1730334600000, updated_at = 0\<rparr>] \<and>
   overdueComplaints
     \<lparr>initial_offset = - 18000000,
      transitions = [(1710054000000, - 14400000), (1730613600000, - 18000000)]\<rparr>
     1730680200000
     [\<lparr>c_id = 2, student_id = 1, title = ''b'', description = ''d'', category = other,
       status = pending, assigned_to = None, created_at = 1730507400000, updated_at = 0\<rparr>] = []"
proof -
  let ?tz = "\<lparr>initial_offset = - 18000000,
      transitions = [(1710054000000, - 14400000), (1730613600000, - 18000000)]\<rparr>"
  let ?c4 = "\<lparr>c_id = 1, student_id = 1, title = ''a'', description = ''d'', category = other,
       status = pending, assigned_to = None, created_at = 1730334600000, updated_at = 0\<rparr>"
  let ?c2 = "\<lparr>c_id = 2, student_id = 1, title = ''b'', description = ''d'', category = other,
       status = pending, assigned_to = None, created_at = 1730507400000, updated_at = 0\<rparr>"
  have off: "LocalTZA ?tz 1730680200000 True = - 18000000"
    "LocalTZA ?tz (LocalTime ?tz 1730680200000 - 3 * 86400000) False = - 14400000"
    by (simp_all add: LocalTZA_def LocalTime_def)
  have t: "setDate_back ?tz 1730680200000 3 = 1730417400000"
    unfolding overdue_set [of ?c4 ?tz 1730680200000 "[]", THEN conjunct2, THEN conjunct1] off
    by simp
  have h4: "\<bar>LocalTZA ?tz 1730680200000 True -
       LocalTZA ?tz (LocalTime ?tz 1730680200000 - 3 * 86400000) False\<bar> < 86400000 \<and>
     status ?c4 = pending \<and> assigned_to ?c4 = None \<and>
     created_at ?c4 = 1730680200000 - 4 * 86400000"
    unfolding off by simp
  have h2: "\<bar>LocalTZA ?tz 1730680200000 True -
       LocalTZA ?tz (LocalTime ?tz 1730680200000 - 3 * 86400000) False\<bar> < 86400000 \<and>
     status ?c2 = pending \<and> assigned_to ?c2 = None \<and>
     created_at ?c2 = 1730680200000 - 2 * 86400000"
    unfolding off by simp
  have a: "overdueComplaints ?tz 1730680200000 [?c4] = [?c4]"
    by (rule overdue_set [of ?c4 ?tz 1730680200000 "[]", THEN conjunct2, THEN conjunct2,
          THEN conjunct1, THEN mp, OF h4])
  have b: "overdueComplaints ?tz 1730680200000 [?c2] = []"
    by (rule overdue_set [of ?c2 ?tz 1730680200000 "[]", THEN conjunct2, THEN conjunct2,
          THEN conjunct2, THEN mp, OF h2])
  from t a b show ?thesis by simp
qed

text \<open>
  C9. The sort is stable: its result is a rearrangement of its input in which, for every
  sort key, a complaint that stood before another it ties with still stands before it.
  A list already in newest-first order is returned as it is by the sort on \<open>newest\<close>.
\<close>

theorem sort_is_stable:
  "mset (sortedComplaints lc sortBy cs) = mset cs \<and>
   (\<forall>a b. occurs_before a b cs \<and> compareFn lc sortBy a b = 0 \<longrightarrow>
          occurs_before a b (sortedComplaints lc sortBy cs)) \<and>
   (sorted_wrt (\<lambda>a b. created_at b \<le> created_at a) cs \<longrightarrow>
      sortedComplaints lc ''newest'' cs = cs)"
proof (intro conjI allI impI)
  show "mset (sortedComplaints lc sortBy cs) = mset cs"
    by (simp add: sortedComplaints_def mset_array_sort)
next
  fix a b
  assume "occurs_before a b cs \<and> compareFn lc sortBy a b = 0"
  then show "occurs_before a b (sortedComplaints lc sortBy cs)"
    by (simp add: sortedComplaints_def array_sort_keeps_order)
next
  assume "sorted_wrt (\<lambda>a b. created_at b \<le> created_at a) cs"
  then have "sorted_wrt (\<lambda>a b. compareFn lc ''newest'' a b \<le> 0) cs"
    by (simp add: compareFn_def)
  then show "sortedComplaints lc ''newest'' cs = cs"
    unfolding sortedComplaints_def by (rule array_sort_sorted)
qed

theorem sort_is_stable_witness:
  "sortedComplaints (\<lambda>s t. 0) ''newest''
     [\<lparr>c_id = 1, student_id = 1, title = ''x'', description = ''d'', category = other,
       status = pending, assigned_to = None, created_at = 100, updated_at = 100,
       student_profile = Some ''Ann''\<rparr>,
      \<lparr>c_id = 2, student_id = 2, title = ''y'', description = ''d'', category = other,
       status = pending, assigned_to = None, created_at = 100, updated_at = 100,
       student_profile = None\<rparr>,
      \<lparr>c_id = 3, student_id = 1, title = ''z'', description = ''d'', category = other,
       status = pending, assigned_to = None, created_at = 200, updated_at = 200,
       student_profile = Some ''Ann''\<rparr>] =
     [\<lparr>c_id = 3, student_id = 1, title = ''z'', description = ''d'', category = other,
       status = pending, assigned_to = None, created_at = 200, updated_at = 200,
       student_profile = Some ''Ann''\<rparr>,
      \<lparr>c_id = 1, student_id = 1, title = ''x'', description = ''d'', category = other,
       status = pending, assigned_to = None, created_at = 100, updated_at = 100,
       student_profile = Some ''Ann''\<rparr>,
      \<lparr>c_id = 2, student_id = 2, title = ''y'', description = ''d'', category = other,
       status = pending, assigned_to = None, created_at = 100, updated_at = 100,
       student_profile = None\<rparr>] \<and>
   sortedComplaints (\<lambda>s t. 0) ''newest''
     [\<lparr>c_id = 3, student_id = 1, title = ''z'', description = ''d'', category = other,
       status = pending, assigned_to = None, created_at = 200, updated_at = 200,
       student_profile = Some ''Ann''\<rparr>,
      \<lparr>c_id = 1, student_id = 1, title = ''x'', description = ''d'', category = other,
       status = pending, assigned_to = None, created_at = 100, updated_at = 100,
       student_profile = Some ''Ann''\<rparr>,
      \<lparr>c_id = 2, student_id = 2, title = ''y'', description = ''d'', category = other,
       status = pending, assigned_to = None, created_at = 100, updated_at = 100,
       student_profile = None\<rparr>] =
     [\<lparr>c_id = 3, student_id = 1, title = ''z'', description = ''d'', category = other,
       status = pending, assigned_to = None, created_at = 200, updated_at = 200,
       student_profile = Some ''Ann''\<rparr>,
      \<lparr>c_id = 1, student_id = 1, title = ''x'', description = ''d'', category = other,
       status = pending, assigned_to = None, created_at = 100, updated_at = 100,
       student_profile = Some ''Ann''\<rparr>,
      \<lparr>c_id = 2, student_id = 2, title = ''y'', description = ''d'', category = other,
       status = pending, assigned_to = None, created_at = 100, updated_at = 100,
       student_profile = None\<rparr>]"
proof -
  let ?x = "\<lparr>c_id = 1, student_id = 1, title = ''x'', description = ''d'', category = other,
       status = pending, assigned_to = None, created_at = 100, updated_at = 100,
       student_profile = Some ''Ann''\<rparr>"
  let ?y = "\<lparr>c_id = 2, student_id = 2, title = ''y'', description = ''d'', category = other,
       status = pending, assigned_to = None, created_at = 100, updated_at = 100,
       student_profile = None\<rparr>"
  let ?z = "\<lparr>c_id = 3, student_id = 1, title = ''z'', description = ''d'', category = other,
       status = pending, assigned_to = None, created_at = 200, updated_at = 200,
       student_profile = Some ''Ann''\<rparr>"
  let ?lc = "\<lambda>(s::string) (t::string). 0::int"
  have tie: "occurs_before ?x ?y [?x, ?y, ?z] \<and> compareFn ?lc ''newest'' ?x ?y = 0"
    by (simp add: compareFn_def)
  then have kept: "occurs_before ?x ?y (sortedComplaints ?lc ''newest'' [?x, ?y, ?z])"
    using sort_is_stable [of ?lc "''newest''" "[?x, ?y, ?z]"] by blast
  have first: "sortedComplaints ?lc ''newest'' [?x, ?y, ?z] = [?z, ?x, ?y]"
    by (simp add: sortedComplaints_def array_sort_def compareFn_def)
  have "sorted_wrt (\<lambda>a b. created_at b \<le> created_at a) [?z, ?x, ?y]"
    by simp
  then have second: "sortedComplaints ?lc ''newest'' [?z, ?x, ?y] = [?z, ?x, ?y]"
    using sort_is_stable [of ?lc "''newest''" "[?z, ?x, ?y]"] by blast
  from kept first second show ?thesis by simp
qed

text \<open>
  C10. The per-category aggregation lists the categories that occur among the
  complaints, each once, in the order of their first occurrence; the value of an entry is
  the number of complaints of that category, which is at least one, so a category
  without complaints has no entry; and the values add up to the number of complaints.
\<close>

theorem category_aggregation:
  "map fst (categoryData cs) = rev (remdups (rev (map category cs))) \<and>
   (\<forall>(n, v) \<in> set (categoryData cs). v = length (filter (\<lambda>c. category c = n) cs) \<and> 0 < v) \<and>
   (\<forall>n. n \<in> set (map fst (categoryData cs)) \<longleftrightarrow> (\<exists>c \<in> set cs. category c = n)) \<and>
   sum_list (map snd (categoryData cs)) = length cs"
proof (intro conjI)
  show names: "map fst (categoryData cs) = rev (remdups (rev (map category cs)))"
    by (simp add: categoryData_counts comp_def)
  show "\<forall>(n, v) \<in> set (categoryData cs). v = length (filter (\<lambda>c. category c = n) cs) \<and> 0 < v"
    unfolding categoryData_counts
    by (auto simp: count_list_filter count_list_present simp flip: count_list_filter)
  show "\<forall>n. n \<in> set (map fst (categoryData cs)) \<longleftrightarrow> (\<exists>c \<in> set cs. category c = n)"
    unfolding names by auto
  have "map snd (categoryData cs) =
          map (count_list (map category cs)) (rev (remdups (rev (map category cs))))"
    by (simp add: categoryData_counts comp_def)
  then show "sum_list (map snd (categoryData cs)) = length cs"
    using sum_counts_first_occurrences [of "map category cs"] by simp
qed

theorem category_aggregation_witness:
  "categoryData
     [\<lparr>c_id = 1, student_id = 1, title = ''a'', description = ''d'', category = technical,
       status = pending, assigned_to = None, created_at = 0, updated_at = 0\<rparr>,
      \<lparr>c_id = 2, student_id = 1, title = ''b'', description = ''d'', category = academic,
       status = pending, assigned_to = None, created_at = 0, updated_at = 0\<rparr>,
      \<lparr>c_id = 3, student_id = 1, title = ''c'', description = ''d'', category = technical,
       status = resolved, assigned_to = None, created_at = 0, updated_at = 0\<rparr>,
      \<lparr>c_id = 4, student_id = 1, title = ''e'', description = ''d'', category = other,
       status = pending, assigned_to = None, created_at = 0, updated_at = 0\<rparr>] =
     [(technical, 2), (academic, 1), (other, 1)] \<and>
   sum_list (map snd (categoryData
     [\<lparr>c_id = 1, student_id = 1, title = ''a'', description = ''d'', category = technical,
       status = pending, assigned_to = None, created_at = 0, updated_at = 0\<rparr>,
      \<lparr>c_id = 2, student_id = 1, title = ''b'', description = ''d'', category = academic,
       status = pending, assigned_to = None, created_at = 0, updated_at = 0\<rparr>,
      \<lparr>c_id = 3, student_id = 1, title = ''c'', description = ''d'', category = technical,
       status = resolved, assigned_to = None, created_at = 0, updated_at = 0\<rparr>,
      \<lparr>c_id = 4, student_id = 1, title = ''e'', description = ''d'', category = other,
       status = pending, assigned_to = None, created_at = 0, updated_at = 0\<rparr>])) = 4"
proof -
  let ?cs = "[\<lparr>c_id = 1, student_id = 1, title = ''a'', description = ''d'', category = technical,
       status = pending, assigned_to = None, created_at = 0, updated_at = 0\<rparr>,
      \<lparr>c_id = 2, student_id = 1, title = ''b'', description = ''d'', category = academic,
       status = pending, assigned_to = None, created_at = 0, updated_at = 0\<rparr>,
      \<lparr>c_id = 3, student_id = 1, title = ''c'', description = ''d'', category = technical,
       status = resolved, assigned_to = None, created_at = 0, updated_at = 0\<rparr>,
      \<lparr>c_id = 4, student_id = 1, title = ''e'', description = ''d'', category = other,
       status = pending, assigned_to = None, created_at = 0, updated_at = 0\<rparr>]"
  have total: "sum_list (map snd (categoryData ?cs)) = 4"
    using category_aggregation [of ?cs] by simp
  have "categoryData ?cs = [(technical, 2), (academic, 1), (other, 1)]"
    by (simp add: categoryData_def)
  with total show ?thesis by simp
qed

end
